theory Spec2Isabelle
  imports Complex_Main
begin

section \<open>Numbers and errors\<close>

text \<open>
  The program computes on Python floats. They are modelled as the real numbers they
  stand for: rounding and overflow are not part of the model. What Python does at a
  division by zero is part of it: the operator \<open>/\<close> on floats raises
  \<open>ZeroDivisionError\<close>. The scalar arguments of the functions are taken as Python
  floats; on numpy scalars the same operator gives an infinity or not-a-number and a
  warning instead.
\<close>

datatype error = ZeroDivisionError | IndexError | ValueError

definition py_div :: "real \<Rightarrow> real \<Rightarrow> error + real" where
  "py_div a b = (if b = 0 then Inl ZeroDivisionError else Inr (a / b))"

section \<open>Technical indicator calculator\<close>

text \<open>
  \<^verbatim>\<open>calculate_rsi_manual\<close> works on pandas series of float64 values. Beside the
  numbers such a value can be not-a-number, which pandas uses as its "no value"
  marker, or an infinity; division by zero does not raise on a series. The finite values
  are idealised as reals and the sign of a zero is not modelled.
\<close>

datatype fval = Num real | PosInf | NegInf | NaN

fun fneg :: "fval \<Rightarrow> fval" where
  "fneg (Num a) = Num (- a)"
| "fneg PosInf = NegInf"
| "fneg NegInf = PosInf"
| "fneg NaN = NaN"

fun fadd :: "fval \<Rightarrow> fval \<Rightarrow> fval" where
  "fadd NaN _ = NaN"
| "fadd _ NaN = NaN"
| "fadd (Num a) (Num b) = Num (a + b)"
| "fadd PosInf NegInf = NaN"
| "fadd NegInf PosInf = NaN"
| "fadd PosInf _ = PosInf"
| "fadd _ PosInf = PosInf"
| "fadd NegInf _ = NegInf"
| "fadd _ NegInf = NegInf"

definition fsub :: "fval \<Rightarrow> fval \<Rightarrow> fval" where
  "fsub a b = fadd a (fneg b)"

fun fdiv :: "fval \<Rightarrow> fval \<Rightarrow> fval" where
  "fdiv NaN _ = NaN"
| "fdiv _ NaN = NaN"
| "fdiv (Num a) (Num b) =
     (if b = 0 then (if a = 0 then NaN else if 0 < a then PosInf else NegInf)
      else Num (a / b))"
| "fdiv (Num a) _ = Num 0"
| "fdiv PosInf (Num b) = (if b < 0 then NegInf else PosInf)"
| "fdiv NegInf (Num b) = (if b < 0 then PosInf else NegInf)"
| "fdiv _ _ = NaN"

text \<open>Comparisons: any comparison with not-a-number is false.\<close>

fun fgt :: "fval \<Rightarrow> fval \<Rightarrow> bool" where
  "fgt NaN _ = False"
| "fgt _ NaN = False"
| "fgt (Num a) (Num b) = (b < a)"
| "fgt PosInf b = (b \<noteq> PosInf)"
| "fgt NegInf _ = False"
| "fgt (Num a) PosInf = False"
| "fgt (Num a) NegInf = True"

definition flt :: "fval \<Rightarrow> fval \<Rightarrow> bool" where
  "flt a b = fgt b a"

text \<open>
  \<^verbatim>\<open>Series.diff()\<close>: the first entry has no predecessor and is not-a-number, every
  other entry is the difference to the entry before it.
\<close>

definition diff :: "real list \<Rightarrow> fval list" where
  "diff xs = map (\<lambda>i. if i = 0 then NaN else Num (xs ! i - xs ! (i - 1))) [0..<length xs]"

text \<open>\<^verbatim>\<open>Series.where(cond, other)\<close> keeps an entry where \<open>cond\<close> holds and puts \<open>other\<close> elsewhere.\<close>

definition series_where :: "fval list \<Rightarrow> bool list \<Rightarrow> fval \<Rightarrow> fval list" where
  "series_where xs cond other = map2 (\<lambda>x c. if c then x else other) xs cond"

text \<open>
  \<^verbatim>\<open>Series.rolling(window).mean()\<close> with an integer window: the window of entry \<open>i\<close>
  is the last \<open>window\<close> entries up to \<open>i\<close>; entries that are not finite numbers are
  not observations; the mean of the observations is the result when there are at least
  \<open>window\<close> of them (the default \<^verbatim>\<open>min_periods\<close>) and at least one, and not-a-number
  otherwise.
\<close>

fun observations :: "fval list \<Rightarrow> real list" where
  "observations [] = []"
| "observations (Num a # xs) = a # observations xs"
| "observations (_ # xs) = observations xs"

definition rolling_mean :: "nat \<Rightarrow> fval list \<Rightarrow> fval list" where
  "rolling_mean window xs =
     map (\<lambda>i. let obs = observations (drop (i + 1 - window) (take (i + 1) xs))
              in if window \<le> length obs \<and> 0 < length obs
                 then Num (sum_list obs / real (length obs)) else NaN)
         [0..<length xs]"

text \<open>
  The lines of \<^verbatim>\<open>calculate_rsi_manual\<close>; \<open>data\<close> is the column of closing prices.
  \<^verbatim>\<open>rolling\<close> raises \<open>ValueError\<close> for a negative window.
\<close>

definition rsi_gain :: "real list \<Rightarrow> nat \<Rightarrow> fval list" where
  "rsi_gain data period =
     (let delta = diff data
      in rolling_mean period (series_where delta (map (\<lambda>d. fgt d (Num 0)) delta) (Num 0)))"

definition rsi_loss :: "real list \<Rightarrow> nat \<Rightarrow> fval list" where
  "rsi_loss data period =
     (let delta = diff data
      in rolling_mean period
           (map fneg (series_where delta (map (\<lambda>d. flt d (Num 0)) delta) (Num 0))))"

definition calculate_rsi_manual :: "real list \<Rightarrow> int \<Rightarrow> error + fval list" where
  "calculate_rsi_manual data period =
     (if period < 0 then Inl ValueError
      else
        let gain = rsi_gain data (nat period);
            loss = rsi_loss data (nat period);
            rs = map2 fdiv gain loss;
            rsi = map (\<lambda>r. fsub (Num 100) (fdiv (Num 100) (fadd (Num 1) r))) rs
        in Inr rsi)"

text \<open>
  Two series that the proofs below use: the gains and the losses as real numbers, one
  per price, with \<open>0\<close> at the first index and wherever the price did not move that
  way. They are shown equal to what the \<^verbatim>\<open>where\<close> lines compute.
\<close>

definition gains :: "real list \<Rightarrow> real list" where
  "gains data =
     map (\<lambda>i. if 0 < i \<and> data ! (i - 1) < data ! i then data ! i - data ! (i - 1) else 0)
         [0..<length data]"

definition losses :: "real list \<Rightarrow> real list" where
  "losses data =
     map (\<lambda>i. if 0 < i \<and> data ! i < data ! (i - 1) then data ! (i - 1) - data ! i else 0)
         [0..<length data]"

section \<open>Valuation engine\<close>

text \<open>
  \<^verbatim>\<open>gordon_model\<close> returns \<open>None\<close> when the discount rate does not exceed the
  growth rate, and the quotient otherwise.
\<close>

definition gordon_model :: "real \<Rightarrow> real \<Rightarrow> real \<Rightarrow> error + real option" where
  "gordon_model dividend growth_rate discount_rate =
     (if discount_rate \<le> growth_rate then Inr None
      else case py_div dividend (discount_rate - growth_rate) of
             Inl e \<Rightarrow> Inl e
           | Inr v \<Rightarrow> Inr (Some v))"

text \<open>
  The loop of \<^verbatim>\<open>dcf_model\<close> over \<^verbatim>\<open>enumerate(cash_flows)\<close>: \<open>i\<close> is the index of
  the next cash flow and \<open>present_value\<close> the sum so far.
\<close>

fun dcf_loop :: "real \<Rightarrow> nat \<Rightarrow> real \<Rightarrow> real list \<Rightarrow> error + real" where
  "dcf_loop discount_rate i present_value [] = Inr present_value"
| "dcf_loop discount_rate i present_value (cf # cfs) =
     (case py_div cf ((1 + discount_rate) ^ (i + 1)) of
        Inl e \<Rightarrow> Inl e
      | Inr q \<Rightarrow> dcf_loop discount_rate (i + 1) (present_value + q) cfs)"

definition dcf_model :: "real list \<Rightarrow> real \<Rightarrow> real \<Rightarrow> error + real option" where
  "dcf_model cash_flows discount_rate terminal_growth_rate =
     (if cash_flows = [] then Inr None
      else case dcf_loop discount_rate 0 0 cash_flows of
        Inl e \<Rightarrow> Inl e
      | Inr present_value \<Rightarrow>
          (case py_div (last cash_flows * (1 + terminal_growth_rate))
                       (discount_rate - terminal_growth_rate) of
             Inl e \<Rightarrow> Inl e
           | Inr terminal_value \<Rightarrow>
               (case py_div terminal_value ((1 + discount_rate) ^ length cash_flows) of
                  Inl e \<Rightarrow> Inl e
                | Inr q \<Rightarrow> Inr (Some (present_value + q)))))"

section \<open>Recommendation engine\<close>

text \<open>
  The texts the program returns are Portuguese. A character outside ASCII is written
  by its code point, which is below 256 for each of them: \<open>0xE1\<close> a-acute,
  \<open>0xE3\<close> a-tilde, \<open>0xE7\<close> c-cedilla, \<open>0xE9\<close> e-acute, \<open>0xED\<close> i-acute.
\<close>

definition insufficient_data :: "string \<times> string" where
  "insufficient_data =
     (''Dados insuficientes'',
      ''N'' @ [CHR 0xE3] @ ''o '' @ [CHR 0xE9] @ '' poss'' @ [CHR 0xED]
        @ ''vel gerar uma recomenda'' @ [CHR 0xE7, CHR 0xE3] @ ''o.'')"

definition strong_opportunity :: "string \<times> string" where
  "strong_opportunity =
     (''Forte Oportunidade'',
      ''Considerar investimento. O ativo est'' @ [CHR 0xE1]
        @ '' subvalorizado e tem potencial de crescimento.'')"

definition moderate_undervalued :: "string \<times> string" where
  "moderate_undervalued =
     (''Oportunidade Moderada'',
      ''Considerar investimento. O ativo est'' @ [CHR 0xE1]
        @ '' subvalorizado, mas o crescimento futuro '' @ [CHR 0xE9] @ '' incerto.'')"

definition moderate_overvalued :: "string \<times> string" where
  "moderate_overvalued =
     (''Oportunidade Moderada'',
      ''Cautela. O ativo pode estar sobrevalorizado, mas h'' @ [CHR 0xE1]
        @ '' potencial de crescimento.'')"

definition weak_opportunity :: "string \<times> string" where
  "weak_opportunity =
     (''Fraca Oportunidade'',
      ''Evitar investimento. O ativo est'' @ [CHR 0xE1]
        @ '' sobrevalorizado e com baixo potencial de crescimento.'')"

text \<open>The read \<^verbatim>\<open>future_prices[-1]\<close>, which raises \<open>IndexError\<close> on an empty sequence.\<close>

definition py_last :: "real list \<Rightarrow> error + real" where
  "py_last xs = (if xs = [] then Inl IndexError else Inr (last xs))"

text \<open>
  \<^verbatim>\<open>generate_recommendation\<close>: an absent argument is \<open>None\<close>. The margin is computed
  first, then the last forecast is read, then the growth is divided by the current
  price.
\<close>

definition generate_recommendation ::
    "real option \<Rightarrow> real option \<Rightarrow> real list option \<Rightarrow> error + string \<times> string" where
  "generate_recommendation fair_price current_price future_prices =
     (case fair_price of
        None \<Rightarrow> Inr insufficient_data
      | Some fp \<Rightarrow>
     (case current_price of
        None \<Rightarrow> Inr insufficient_data
      | Some cp \<Rightarrow>
     (case future_prices of
        None \<Rightarrow> Inr insufficient_data
      | Some fps \<Rightarrow>
          (let margin = fp - cp in
           case py_last fps of
             Inl e \<Rightarrow> Inl e
           | Inr final \<Rightarrow>
               (case py_div (final - cp) cp of
                  Inl e \<Rightarrow> Inl e
                | Inr q \<Rightarrow>
                    (let future_growth = q * 100 in
                     if margin > 0 \<and> future_growth > 0 then Inr strong_opportunity
                     else if margin > 0 \<and> future_growth \<le> 0 then Inr moderate_undervalued
                     else if margin \<le> 0 \<and> future_growth > 0 then Inr moderate_overvalued
                     else Inr weak_opportunity))))))"

section \<open>Trend forecaster\<close>

text \<open>
  \<^verbatim>\<open>predict_future_prices\<close> calls scikit-learn's \<^verbatim>\<open>LinearRegression\<close>, which is not
  part of the program. It is modelled by what the library does for one feature with the
  default \<^verbatim>\<open>fit_intercept=True\<close>: input validation rejects an array with no sample
  (\<open>ValueError\<close>) in \<^verbatim>\<open>fit\<close> and in \<^verbatim>\<open>predict\<close>; \<^verbatim>\<open>fit\<close> centres \<open>X\<close> and
  \<open>y\<close> on their means, takes the minimum-norm least-squares solution of the centred
  system as the coefficient, and sets the intercept to
  \<open>mean y - mean X * coefficient\<close>; \<^verbatim>\<open>predict\<close> evaluates
  \<open>x * coefficient + intercept\<close>.
\<close>

definition mean :: "real list \<Rightarrow> real" where
  "mean xs = sum_list xs / real (length xs)"

text \<open>
  The minimum-norm least-squares solution \<open>w\<close> of the one-column system \<open>X w = y\<close>:
  \<open>(X \<bullet> y) / (X \<bullet> X)\<close>, and \<open>0\<close> when the column is zero.
\<close>

definition lstsq :: "real list \<Rightarrow> real list \<Rightarrow> real" where
  "lstsq X y =
     (let sxx = sum_list (map2 (*) X X)
      in if sxx = 0 then 0 else sum_list (map2 (*) X y) / sxx)"

record LinearRegression =
  coef :: real
  intercept :: real

definition fit :: "real list \<Rightarrow> real list \<Rightarrow> error + LinearRegression" where
  "fit X y =
     (if X = [] then Inl ValueError
      else
        let X_offset = mean X;
            y_offset = mean y;
            w = lstsq (map (\<lambda>x. x - X_offset) X) (map (\<lambda>v. v - y_offset) y)
        in Inr \<lparr>coef = w, intercept = y_offset - X_offset * w\<rparr>)"

definition predict :: "LinearRegression \<Rightarrow> real list \<Rightarrow> error + real list" where
  "predict model X =
     (if X = [] then Inl ValueError
      else Inr (map (\<lambda>x. x * coef model + intercept model) X))"

text \<open>
  \<^verbatim>\<open>predict_future_prices\<close>: \<open>data\<close> is the column of closing prices, so
  \<^verbatim>\<open>len(data)\<close> is its length. \<^verbatim>\<open>range(len(data), len(data) + days)\<close> is empty when
  \<open>days\<close> is not positive, as \<open>nat days\<close> is \<open>0\<close> then.
\<close>

definition predict_future_prices :: "real list \<Rightarrow> int \<Rightarrow> error + real list" where
  "predict_future_prices data days =
     (let X = map real [0..<length data];
          y = data
      in case fit X y of
           Inl e \<Rightarrow> Inl e
         | Inr model \<Rightarrow>
             (let future_X = map real [length data..<length data + nat days]
              in predict model future_X))"

text \<open>
  The specification's measure of a line \<open>a * index + b\<close> against a price series: the
  sum of the squared residuals over the pairs (index, price). The ordinary
  least-squares line is the one that minimises it.
\<close>

definition squared_residuals :: "real \<Rightarrow> real \<Rightarrow> real list \<Rightarrow> real" where
  "squared_residuals a b prices =
     (\<Sum>i<length prices. (prices ! i - (a * real i + b))\<^sup>2)"

section \<open>Properties of the valuation engine\<close>

lemma dcf_loop_sum:
  "1 + r \<noteq> 0 \<Longrightarrow>
   dcf_loop r i pv cfs = Inr (pv + (\<Sum>k<length cfs. cfs ! k / (1 + r) ^ (i + k + 1)))"
proof (induction cfs arbitrary: i pv)
  case Nil
  show ?case by simp
next
  case (Cons cf cfs)
  have nz: "(1 + r) ^ (i + 1) \<noteq> 0"
    using Cons.prems by simp
  have "dcf_loop r i pv (cf # cfs) = dcf_loop r (i + 1) (pv + cf / (1 + r) ^ (i + 1)) cfs"
    using nz by (simp add: py_div_def)
  also have "\<dots> = Inr (pv + cf / (1 + r) ^ (i + 1)
                 + (\<Sum>k<length cfs. cfs ! k / (1 + r) ^ (i + 1 + k + 1)))"
    using Cons.IH [OF Cons.prems] .
  also have "\<dots> = Inr (pv + (\<Sum>k<Suc (length cfs). (cf # cfs) ! k / (1 + r) ^ (i + k + 1)))"
    unfolding sum.lessThan_Suc_shift by (simp add: add.assoc)
  finally show ?case by simp
qed

lemma sum_shift_one:
  fixes f :: "nat \<Rightarrow> real"
  shows "(\<Sum>k<n. f (k + 1)) = (\<Sum>i = 1..n. f i)"
proof (induction n)
  case 0
  show ?case by simp
next
  case (Suc n)
  then show ?case by simp
qed

text \<open>
  C2. Whenever the discount rate exceeds the growth rate, \<^verbatim>\<open>gordon_model\<close> returns
  exactly \<open>dividend / (discount_rate - growth_rate)\<close>; whenever it does not, the result
  is \<open>None\<close> ("unavailable"), whatever the dividend and the growth rate are. In neither
  case is an error raised.
\<close>

theorem gordon_model_spec:
  "(growth_rate < discount_rate \<longrightarrow>
      gordon_model dividend growth_rate discount_rate
        = Inr (Some (dividend / (discount_rate - growth_rate)))) \<and>
   (discount_rate \<le> growth_rate \<longrightarrow>
      gordon_model dividend growth_rate discount_rate = Inr None)"
  by (simp add: gordon_model_def py_div_def)

theorem gordon_model_spec_witness:
  "(5 / 100 :: real) < 10 / 100 \<and>
   gordon_model 2 (5 / 100) (10 / 100) = Inr (Some 40) \<and>
   (10 / 100 :: real) \<le> 10 / 100 \<and>
   gordon_model 2 (10 / 100) (10 / 100) = Inr None"
  using gordon_model_spec [of "5 / 100" "10 / 100" 2]
        gordon_model_spec [of "10 / 100" "10 / 100" 2]
  by simp

text \<open>
  C1. The claim says that \<^verbatim>\<open>dcf_model\<close> returns \<open>None\<close> whenever the cash flows are
  empty or the discount rate does not exceed the terminal growth rate. The function
  tests the first condition only: for no cash flows the result is \<open>None\<close>, whatever
  the rates are. With equal rates the terminal value divides by zero
  and \<open>ZeroDivisionError\<close> is raised; with a discount rate below the terminal growth
  rate a number comes back (here a negative valuation). \<^verbatim>\<open>gordon_model\<close> has the
  guard that is missing here.
\<close>

theorem dcf_model_no_rate_guard:
  "dcf_model [] discount_rate terminal_growth_rate = Inr None \<and>
   dcf_model [100] (3 / 100) (3 / 100) = Inl ZeroDivisionError \<and>
   dcf_model [100] (2 / 100) (3 / 100) = Inr (Some (- 10000))"
  by (simp add: dcf_model_def py_div_def)

text \<open>
  C3, as the claim states it, fails when the discount rate is \<open>-1\<close>: every discount
  factor \<open>(1 + discount_rate) ^ i\<close> is zero and the first division raises.
\<close>

theorem dcf_model_formula_counterexample:
  "[100 :: real] \<noteq> [] \<and> (- 2 :: real) < - 1 \<and>
   dcf_model [100] (- 1) (- 2) = Inl ZeroDivisionError"
  by (simp add: dcf_model_def py_div_def)

text \<open>
  C3, amended. For every non-empty cash-flow sequence of length \<open>n\<close>, every discount
  rate other than \<open>-1\<close> and every terminal growth rate below the discount rate,
  \<^verbatim>\<open>dcf_model\<close> returns the sum over \<open>i = 1..n\<close> of
  \<open>cash_flows[i-1] / (1 + discount_rate) ^ i\<close> plus the terminal value
  \<open>cash_flows[n-1] * (1 + terminal_growth_rate) / (discount_rate - terminal_growth_rate)\<close>
  divided by \<open>(1 + discount_rate) ^ n\<close>.
\<close>

theorem dcf_model_formula:
  assumes "cash_flows \<noteq> []"
    and "terminal_growth_rate < discount_rate"
    and "discount_rate \<noteq> - 1"
  shows "dcf_model cash_flows discount_rate terminal_growth_rate =
    Inr (Some ((\<Sum>i = 1..length cash_flows.
                   cash_flows ! (i - 1) / (1 + discount_rate) ^ i)
          + cash_flows ! (length cash_flows - 1) * (1 + terminal_growth_rate)
              / (discount_rate - terminal_growth_rate)
              / (1 + discount_rate) ^ length cash_flows))"
proof -
  have nz: "1 + discount_rate \<noteq> 0"
    using assms(3) by arith
  have loop: "dcf_loop discount_rate 0 0 cash_flows =
      Inr (\<Sum>i = 1..length cash_flows. cash_flows ! (i - 1) / (1 + discount_rate) ^ i)"
    using dcf_loop_sum [OF nz, of 0 0 cash_flows]
      sum_shift_one [of "\<lambda>i. cash_flows ! (i - 1) / (1 + discount_rate) ^ i"
                        "length cash_flows"]
    by simp
  have lst: "last cash_flows = cash_flows ! (length cash_flows - 1)"
    using assms(1) by (rule last_conv_nth)
  show ?thesis
    using assms(1,2) nz by (simp add: dcf_model_def loop lst py_div_def)
qed

theorem dcf_model_formula_witness:
  "[100 :: real] \<noteq> [] \<and> (3 / 100 :: real) < 1 / 10 \<and> (1 / 10 :: real) \<noteq> - 1 \<and>
   dcf_model [100] (1 / 10) (3 / 100)
     = Inr (Some (100 / (11 / 10) + (100 * (103 / 100) / (7 / 100)) / (11 / 10)))"
  using dcf_model_formula [of "[100]" "3 / 100" "1 / 10"]
  by simp

section \<open>Properties of the trend forecaster\<close>

lemma ols_expand:
  fixes p :: "nat \<Rightarrow> real"
  assumes N1: "(\<Sum>i<n. p i - (a * real i + b)) = 0"
    and N2: "(\<Sum>i<n. (p i - (a * real i + b)) * real i) = 0"
  shows "(\<Sum>i<n. (p i - (a' * real i + b'))\<^sup>2)
       = (\<Sum>i<n. (p i - (a * real i + b))\<^sup>2) + (\<Sum>i<n. ((a - a') * real i + (b - b'))\<^sup>2)"
proof -
  have tm: "(p i - (a' * real i + b'))\<^sup>2
      = (p i - (a * real i + b))\<^sup>2 + ((a - a') * real i + (b - b'))\<^sup>2
        + (2 * (a - a') * ((p i - (a * real i + b)) * real i)
           + 2 * (b - b') * (p i - (a * real i + b)))" for i
    by (simp add: power2_eq_square algebra_simps)
  have "(\<Sum>i<n. (p i - (a' * real i + b'))\<^sup>2)
     = (\<Sum>i<n. (p i - (a * real i + b))\<^sup>2) + (\<Sum>i<n. ((a - a') * real i + (b - b'))\<^sup>2)
       + (2 * (a - a') * (\<Sum>i<n. (p i - (a * real i + b)) * real i)
           + 2 * (b - b') * (\<Sum>i<n. p i - (a * real i + b)))"
    unfolding sum_distrib_left sum.distrib [symmetric] by (rule sum.cong) (simp_all only: tm)
  then show ?thesis
    by (simp add: N1 N2)
qed


lemma sum_list_nth_lessThan:
  fixes xs :: "real list"
  shows "sum_list xs = (\<Sum>i<length xs. xs ! i)"
  by (simp add: sum_list_sum_nth atLeast0LessThan)

lemma sum_list_map2_lessThan:
  fixes xs ys :: "real list" and h :: "real \<Rightarrow> real \<Rightarrow> real"
  assumes "length xs = length ys"
  shows "sum_list (map2 h xs ys) = (\<Sum>i<length xs. h (xs ! i) (ys ! i))"
proof -
  have "sum_list (map2 h xs ys) = (\<Sum>i<length (map2 h xs ys). map2 h xs ys ! i)"
    by (rule sum_list_nth_lessThan)
  also have "\<dots> = (\<Sum>i<length xs. h (xs ! i) (ys ! i))"
    using assms by (intro sum.cong) simp_all
  finally show ?thesis .
qed

lemma mean_indices: "mean (map real [0..<n]) = (\<Sum>i<n. real i) / real n"
  by (simp add: mean_def sum_list_nth_lessThan)

lemma mean_prices: "mean prices = (\<Sum>i<length prices. prices ! i) / real (length prices)"
  by (simp add: mean_def sum_list_nth_lessThan)

lemma lstsq_centred:
  assumes "n = length prices"
  shows "lstsq (map (\<lambda>x. x - mx) (map real [0..<n])) (map (\<lambda>v. v - my) prices)
    = (if (\<Sum>i<n. (real i - mx) * (real i - mx)) = 0 then 0
       else (\<Sum>i<n. (real i - mx) * (prices ! i - my)) / (\<Sum>i<n. (real i - mx) * (real i - mx)))"
proof -
  let ?X = "map (\<lambda>x. x - mx) (map real [0..<n])"
  let ?y = "map (\<lambda>v. v - my) prices"
  have len: "length ?X = n" "length ?X = length ?y" "length ?X = length ?X"
    using assms by simp_all
  have xx: "sum_list (map2 (*) ?X ?X) = (\<Sum>i<n. (real i - mx) * (real i - mx))"
    unfolding sum_list_map2_lessThan [OF len(3)] len(1) by (rule sum.cong) simp_all
  have xy: "sum_list (map2 (*) ?X ?y) = (\<Sum>i<n. (real i - mx) * (prices ! i - my))"
    unfolding sum_list_map2_lessThan [OF len(2)] len(1) using assms by (intro sum.cong) simp_all
  show ?thesis
    unfolding lstsq_def xx xy Let_def ..
qed


lemma centred_sum_zero:
  fixes f :: "nat \<Rightarrow> real"
  assumes "0 < n"
  shows "(\<Sum>i<n. f i - (\<Sum>j<n. f j) / real n) = 0"
  using assms by (simp add: sum_subtractf)

lemma ols_normal_equations:
  fixes p :: "nat \<Rightarrow> real"
  assumes n: "0 < n"
    and mx: "mx = (\<Sum>i<n. real i) / real n"
    and my: "my = (\<Sum>i<n. p i) / real n"
    and sxx: "(\<Sum>i<n. (real i - mx) * (real i - mx)) \<noteq> 0"
    and w: "w = (\<Sum>i<n. (real i - mx) * (p i - my)) / (\<Sum>i<n. (real i - mx) * (real i - mx))"
    and b: "b = my - mx * w"
  shows "(\<Sum>i<n. p i - (w * real i + b)) = 0"
    and "(\<Sum>i<n. (p i - (w * real i + b)) * real i) = 0"
proof -
  have cx: "(\<Sum>i<n. real i - mx) = 0"
    unfolding mx using n by (rule centred_sum_zero)
  have cy: "(\<Sum>i<n. p i - my) = 0"
    unfolding my using n by (rule centred_sum_zero)
  have res: "p i - (w * real i + b) = (p i - my) - w * (real i - mx)" for i
    by (simp add: b algebra_simps)
  have "(\<Sum>i<n. p i - (w * real i + b)) = (\<Sum>i<n. p i - my) - w * (\<Sum>i<n. real i - mx)"
    unfolding res sum_distrib_left sum_subtractf [symmetric] ..
  then show N1: "(\<Sum>i<n. p i - (w * real i + b)) = 0"
    by (simp add: cx cy)
  have "(\<Sum>i<n. (p i - (w * real i + b)) * (real i - mx))
      = (\<Sum>i<n. (real i - mx) * (p i - my)) - w * (\<Sum>i<n. (real i - mx) * (real i - mx))"
    unfolding res sum_distrib_left sum_subtractf [symmetric]
    by (rule sum.cong) (simp_all add: algebra_simps)
  also have "\<dots> = 0"
    using sxx by (simp add: w)
  finally have N2: "(\<Sum>i<n. (p i - (w * real i + b)) * (real i - mx)) = 0" .
  have "(\<Sum>i<n. (p i - (w * real i + b)) * real i)
      = (\<Sum>i<n. (p i - (w * real i + b)) * (real i - mx)) + mx * (\<Sum>i<n. p i - (w * real i + b))"
    unfolding sum_distrib_left sum.distrib [symmetric]
    by (rule sum.cong) (simp_all add: algebra_simps)
  then show "(\<Sum>i<n. (p i - (w * real i + b)) * real i) = 0"
    by (simp add: N1 N2)
qed

lemma squares_zero_two_points:
  fixes d e :: real
  assumes "2 \<le> n" and "(\<Sum>i<n. (d * real i + e)\<^sup>2) = 0"
  shows "d = 0 \<and> e = 0"
proof -
  have all: "\<forall>i\<in>{..<n}. (d * real i + e)\<^sup>2 = 0"
    using assms(2) by (subst (asm) sum_nonneg_eq_0_iff) simp_all
  have "0 \<in> {..<n}" "1 \<in> {..<n}"
    using assms(1) by simp_all
  with all have "(d * real 0 + e)\<^sup>2 = 0" "(d * real 1 + e)\<^sup>2 = 0"
    by blast+
  then show ?thesis
    by simp
qed

lemma index_spread_nonzero:
  assumes "2 \<le> n"
  shows "(\<Sum>i<n. (real i - mx) * (real i - mx)) \<noteq> 0"
proof
  assume "(\<Sum>i<n. (real i - mx) * (real i - mx)) = 0"
  then have "(\<Sum>i<n. (1 * real i + (- mx))\<^sup>2) = 0"
    by (simp add: power2_eq_square)
  from squares_zero_two_points [OF assms this] show False
    by simp
qed


lemma fit_indices:
  assumes "2 \<le> length prices"
    and "mx = (\<Sum>i<length prices. real i) / real (length prices)"
    and "my = (\<Sum>i<length prices. prices ! i) / real (length prices)"
    and "w = (\<Sum>i<length prices. (real i - mx) * (prices ! i - my))
              / (\<Sum>i<length prices. (real i - mx) * (real i - mx))"
  shows "fit (map real [0..<length prices]) prices = Inr \<lparr>coef = w, intercept = my - mx * w\<rparr>"
proof -
  have ne: "map real [0..<length prices] \<noteq> []"
    using assms(1) by (cases prices) simp_all
  have mX: "mean (map real [0..<length prices]) = mx"
    by (simp only: mean_indices assms(2))
  have mY: "mean prices = my"
    by (simp only: mean_prices assms(3))
  have w: "lstsq (map (\<lambda>x. x - mx) (map real [0..<length prices])) (map (\<lambda>v. v - my) prices) = w"
    unfolding lstsq_centred [OF refl] assms(4)
    using index_spread_nonzero [OF assms(1), of mx] by simp
  show ?thesis
    unfolding fit_def Let_def mX mY w
    using ne by (simp only: if_False)
qed

text \<open>
  C6. For every price series of length \<open>L \<ge> 2\<close> and every positive \<open>days\<close>,
  \<^verbatim>\<open>predict_future_prices\<close> returns a sequence of length \<open>days\<close> whose entries are
  the values at the indices \<open>L, L+1, \<dots>, L+days-1\<close> of one line \<open>a * index + b\<close>,
  and that line is the ordinary least-squares line of the pairs (index, price): it
  minimises the sum of squared residuals, and it is the only line that does. (Floats are
  idealised as reals; the fit is the one described for the library above.)
\<close>

theorem predict_future_prices_ols:
  assumes "2 \<le> length prices" and "0 < days"
  shows "\<exists>a b ys.
           predict_future_prices prices days = Inr ys \<and>
           int (length ys) = days \<and>
           ys = map (\<lambda>k. a * real k + b) [length prices..<length prices + nat days] \<and>
           (\<forall>a' b'. squared_residuals a b prices \<le> squared_residuals a' b' prices) \<and>
           (\<forall>a' b'. squared_residuals a' b' prices \<le> squared_residuals a b prices
                     \<longrightarrow> a' = a \<and> b' = b)"
proof -
  define n where "n = length prices"
  define mx where "mx = (\<Sum>i<n. real i) / real n"
  define my where "my = (\<Sum>i<n. prices ! i) / real n"
  define w where "w = (\<Sum>i<n. (real i - mx) * (prices ! i - my))
                        / (\<Sum>i<n. (real i - mx) * (real i - mx))"
  define b where "b = my - mx * w"
  define ys where "ys = map (\<lambda>k. w * real k + b) [n..<n + nat days]"
  have n2: "2 \<le> n"
    using assms(1) by (simp add: n_def)
  then have n0: "0 < n"
    by arith
  have fitted: "fit (map real [0..<length prices]) prices = Inr \<lparr>coef = w, intercept = b\<rparr>"
    unfolding b_def
    by (rule fit_indices [OF assms(1)]) (simp_all only: mx_def my_def w_def n_def)
  have future: "map real [length prices..<length prices + nat days] \<noteq> []"
    using assms(2) by simp
  have run: "predict_future_prices prices days = Inr ys"
    unfolding predict_future_prices_def Let_def fitted
    using future by (simp add: predict_def ys_def n_def mult.commute)
  have len: "int (length ys) = days"
    using assms(2) by (simp add: ys_def)
  have sxx: "(\<Sum>i<n. (real i - mx) * (real i - mx)) \<noteq> 0"
    using n2 by (rule index_spread_nonzero)
  note normal = ols_normal_equations [OF n0 mx_def my_def sxx w_def b_def]
  have expand: "squared_residuals a' b' prices
      = squared_residuals w b prices + (\<Sum>i<n. ((w - a') * real i + (b - b'))\<^sup>2)" for a' b'
    unfolding squared_residuals_def n_def [symmetric]
    by (rule ols_expand [OF normal])
  have least: "squared_residuals w b prices \<le> squared_residuals a' b' prices" for a' b'
    unfolding expand [of a' b'] by (simp add: sum_nonneg)
  have only: "a' = w \<and> b' = b"
    if "squared_residuals a' b' prices \<le> squared_residuals w b prices" for a' b'
  proof -
    have "(\<Sum>i<n. ((w - a') * real i + (b - b'))\<^sup>2) \<le> 0"
      using that unfolding expand [of a' b'] by simp
    moreover have "0 \<le> (\<Sum>i<n. ((w - a') * real i + (b - b'))\<^sup>2)"
      by (simp add: sum_nonneg)
    ultimately have "(\<Sum>i<n. ((w - a') * real i + (b - b'))\<^sup>2) = 0"
      by simp
    from squares_zero_two_points [OF n2 this] show ?thesis
      by simp
  qed
  show ?thesis
    using run len least only unfolding ys_def n_def by blast
qed

theorem predict_future_prices_ols_witness:
  "2 \<le> length [1, 2, 3, 4, 5 :: real] \<and> (0 :: int) < 2 \<and>
   predict_future_prices [1, 2, 3, 4, 5] 2 = Inr [6, 7] \<and>
   (\<exists>a b ys.
      predict_future_prices [1, 2, 3, 4, 5] 2 = Inr ys \<and>
      int (length ys) = 2 \<and>
      ys = map (\<lambda>k. a * real k + b)
             [length [1, 2, 3, 4, 5 :: real]..<length [1, 2, 3, 4, 5 :: real] + nat 2] \<and>
      (\<forall>a' b'. squared_residuals a b [1, 2, 3, 4, 5]
                  \<le> squared_residuals a' b' [1, 2, 3, 4, 5]) \<and>
      (\<forall>a' b'. squared_residuals a' b' [1, 2, 3, 4, 5]
                  \<le> squared_residuals a b [1, 2, 3, 4, 5] \<longrightarrow> a' = a \<and> b' = b))"
proof -
  have long: "2 \<le> length [1, 2, 3, 4, 5 :: real]" and days: "(0 :: int) < 2"
    by simp_all
  have "predict_future_prices [1, 2, 3, 4, 5] 2 = Inr [6, 7]"
    by (simp add: predict_future_prices_def fit_def predict_def mean_def lstsq_def
        upt_rec [of 0] upt_rec [of 1] upt_rec [of 2] upt_rec [of 3] upt_rec [of 4])
  with long days predict_future_prices_ols [OF long days] show ?thesis
    by blast
qed

text \<open>
  C7, as the claim states it, fails for a series of one observation: the library
  accepts a single sample, and the forecast repeats that price.
\<close>

theorem predict_future_prices_short_counterexample:
  "length [5 :: real] < 2 \<and> predict_future_prices [5] 2 = Inr [5, 5]"
  by (simp add: predict_future_prices_def fit_def predict_def mean_def lstsq_def
      upt_rec [of 1] upt_rec [of 2])

text \<open>
  C7, amended. For the empty price series and any horizon \<open>days\<close>,
  \<^verbatim>\<open>predict_future_prices\<close> fails (the library raises \<open>ValueError\<close>). A series of a
  single observation is not rejected: for a positive horizon the forecast is that
  observation, repeated \<open>days\<close> times.
\<close>

theorem predict_future_prices_short:
  "predict_future_prices [] days = Inl ValueError \<and>
   (0 < days' \<longrightarrow> predict_future_prices [p] days' = Inr (replicate (nat days') p))"
proof -
  have "predict_future_prices [] days = Inl ValueError"
    by (simp add: predict_future_prices_def fit_def)
  moreover
  have "predict_future_prices [p] days' = Inr (replicate (nat days') p)" if "0 < days'"
  proof -
    have "fit (map real [0..<length [p]]) [p] = Inr \<lparr>coef = 0, intercept = p\<rparr>"
      by (simp add: fit_def mean_def lstsq_def)
    moreover have "map real [length [p]..<length [p] + nat days'] \<noteq> []"
      using that by simp
    ultimately show ?thesis
      unfolding predict_future_prices_def Let_def
      by (simp add: predict_def map_replicate_const)
  qed
  ultimately show ?thesis
    by blast
qed

theorem predict_future_prices_short_witness:
  "predict_future_prices [] 30 = Inl ValueError \<and>
   (0 :: int) < 3 \<and> predict_future_prices [7] 3 = Inr [7, 7, 7]"
  using predict_future_prices_short [of 30 3 7]
  by (simp add: numeral_3_eq_3)


section \<open>Properties of the recommendation engine\<close>

text \<open>
  C9, as the claim states it, names the pair ("Insufficient data", "Cannot generate a
  recommendation."). The pair the program returns is the Portuguese one.
\<close>

theorem insufficient_data_literal_counterexample:
  "generate_recommendation None (Some 100) (Some [101])
     \<noteq> Inr (''Insufficient data'', ''Cannot generate a recommendation.'')"
  by (simp add: generate_recommendation_def insufficient_data_def)

text \<open>
  C9, amended. Whenever the fair price, the current price or the forecast is absent,
  \<^verbatim>\<open>generate_recommendation\<close> returns the fixed pair ("Dados insuficientes",
  "Nao e possivel gerar uma recomendacao." with its accents), whatever the other
  arguments are.
  No error can come out: nothing is computed from the arguments, so neither a current
  price of zero nor an empty forecast matters.
\<close>

theorem generate_recommendation_absent:
  "fair_price = None \<or> current_price = None \<or> future_prices = None \<Longrightarrow>
   generate_recommendation fair_price current_price future_prices
     = Inr (''Dados insuficientes'',
            ''N'' @ [CHR 0xE3] @ ''o '' @ [CHR 0xE9] @ '' poss'' @ [CHR 0xED]
              @ ''vel gerar uma recomenda'' @ [CHR 0xE7, CHR 0xE3] @ ''o.'')"
  by (auto simp: generate_recommendation_def insufficient_data_def split: option.splits)

theorem generate_recommendation_absent_witness:
  "generate_recommendation None (Some 0) (Some [])
     = Inr (''Dados insuficientes'',
            ''N'' @ [CHR 0xE3] @ ''o '' @ [CHR 0xE9] @ '' poss'' @ [CHR 0xED]
              @ ''vel gerar uma recomenda'' @ [CHR 0xE7, CHR 0xE3] @ ''o.'') \<and>
   generate_recommendation (Some 1) None (Some [])
     = generate_recommendation (Some 1) (Some 0) None"
  using generate_recommendation_absent [of None "Some 0" "Some []"]
        generate_recommendation_absent [of "Some 1" None "Some []"]
        generate_recommendation_absent [of "Some 1" "Some 0" None]
  by simp

text \<open>
  C8, as the claim states it, fails in two ways. With a current price of zero the
  growth divides by zero and an error is raised instead of a pair; and the labels
  returned are the Portuguese ones, not "Strong Opportunity" and the like.
\<close>

theorem generate_recommendation_table_counterexample:
  "generate_recommendation (Some 1) (Some 0) (Some [0]) = Inl ZeroDivisionError \<and>
   generate_recommendation (Some 105) (Some 100) (Some [102]) = Inr strong_opportunity \<and>
   fst strong_opportunity = ''Forte Oportunidade'' \<and>
   fst strong_opportunity \<noteq> ''Strong Opportunity''"
  by (simp add: generate_recommendation_def py_last_def py_div_def strong_opportunity_def)

text \<open>
  C8, amended. For every present fair price, every present current price other than
  zero and every non-empty forecast, with \<open>margin = fair_price - current_price\<close> and
  \<open>future_growth = (forecast[last] - current_price) / current_price * 100\<close>, the
  function returns the pair of the row that the signs select: "Forte Oportunidade"
  for a positive margin and positive growth, "Oportunidade Moderada" (undervalued text)
  for a positive margin and growth at most zero, "Oportunidade Moderada" (caution
  text) for a margin at most zero and positive growth, "Fraca Oportunidade" for both
  at most zero. The four rows cover every case and none raises.
\<close>

theorem generate_recommendation_table:
  assumes "current_price \<noteq> 0" and "forecast \<noteq> []"
    and "margin = fair_price - current_price"
    and "future_growth = (last forecast - current_price) / current_price * 100"
    and "r = generate_recommendation (Some fair_price) (Some current_price) (Some forecast)"
  shows "(0 < margin \<and> 0 < future_growth \<longrightarrow> r = Inr strong_opportunity) \<and>
         (0 < margin \<and> future_growth \<le> 0 \<longrightarrow> r = Inr moderate_undervalued) \<and>
         (margin \<le> 0 \<and> 0 < future_growth \<longrightarrow> r = Inr moderate_overvalued) \<and>
         (margin \<le> 0 \<and> future_growth \<le> 0 \<longrightarrow> r = Inr weak_opportunity) \<and>
         r \<in> {Inr strong_opportunity, Inr moderate_undervalued,
               Inr moderate_overvalued, Inr weak_opportunity}"
  using assms
  by (simp add: generate_recommendation_def py_last_def py_div_def Let_def)

theorem generate_recommendation_table_witness:
  "generate_recommendation (Some 105) (Some 100) (Some [101, 102]) = Inr strong_opportunity \<and>
   generate_recommendation (Some 105) (Some 100) (Some [101, 100]) = Inr moderate_undervalued \<and>
   generate_recommendation (Some 97) (Some 100) (Some [101, 102]) = Inr moderate_overvalued \<and>
   generate_recommendation (Some 97) (Some 100) (Some [101, 99]) = Inr weak_opportunity"
proof -
  have price: "(100 :: real) \<noteq> 0"
    by simp
  have up: "[101, 102 :: real] \<noteq> []" "(2 :: real) = (last [101, 102] - 100) / 100 * 100"
    and flat: "[101, 100 :: real] \<noteq> []" "(0 :: real) = (last [101, 100] - 100) / 100 * 100"
    and down: "[101, 99 :: real] \<noteq> []" "(- 1 :: real) = (last [101, 99] - 100) / 100 * 100"
    by simp_all
  have under: "(5 :: real) = 105 - 100" and over: "(- 3 :: real) = 97 - 100"
    by simp_all
  have signs: "(0 :: real) < 5" "(0 :: real) < 2" "(0 :: real) \<le> 0"
    "(- 3 :: real) \<le> 0" "(- 1 :: real) \<le> 0"
    by simp_all
  have "generate_recommendation (Some 105) (Some 100) (Some [101, 102]) = Inr strong_opportunity"
    using generate_recommendation_table [OF price up(1) under up(2) refl] signs by blast
  moreover
  have "generate_recommendation (Some 105) (Some 100) (Some [101, 100])
          = Inr moderate_undervalued"
    using generate_recommendation_table [OF price flat(1) under flat(2) refl] signs by blast
  moreover
  have "generate_recommendation (Some 97) (Some 100) (Some [101, 102]) = Inr moderate_overvalued"
    using generate_recommendation_table [OF price up(1) over up(2) refl] signs by blast
  moreover
  have "generate_recommendation (Some 97) (Some 100) (Some [101, 99]) = Inr weak_opportunity"
    using generate_recommendation_table [OF price down(1) over down(2) refl] signs by blast
  ultimately show ?thesis
    by blast
qed

text \<open>
  C10. The forecast enters \<^verbatim>\<open>generate_recommendation\<close> through its last element
  only: two non-empty forecasts with the same last element give the same outcome
  (the same pair, or the same error), whatever the fair price and the current price
  are, present or absent.
\<close>

theorem generate_recommendation_last_only:
  assumes "forecast \<noteq> []" and "forecast' \<noteq> []" and "last forecast = last forecast'"
  shows "generate_recommendation fair_price current_price (Some forecast)
           = generate_recommendation fair_price current_price (Some forecast')"
  using assms
  by (simp add: generate_recommendation_def py_last_def split: option.splits)

theorem generate_recommendation_last_only_witness:
  "[90, 120, 102 :: real] \<noteq> [] \<and> [102 :: real] \<noteq> [] \<and>
   last [90, 120, 102 :: real] = last [102] \<and>
   generate_recommendation (Some 105) (Some 100) (Some [90, 120, 102])
     = generate_recommendation (Some 105) (Some 100) (Some [102]) \<and>
   generate_recommendation (Some 105) (Some 100) (Some [102]) = Inr strong_opportunity"
  using generate_recommendation_last_only [of "[90, 120, 102]" "[102]" "Some 105" "Some 100"]
  by (simp add: generate_recommendation_def py_last_def py_div_def)

section \<open>Properties of the technical indicator calculator\<close>

lemma observations_Num: "observations (map Num xs) = xs"
  by (induction xs) simp_all

lemma rolling_mean_Num:
  assumes "i < length xs"
  shows "rolling_mean w (map Num xs) ! i =
    (if 0 < w \<and> w \<le> i + 1
     then Num (sum_list (drop (i + 1 - w) (take (i + 1) xs)) / real w) else NaN)"
proof -
  have win: "drop (i + 1 - w) (take (i + 1) (map Num xs))
               = map Num (drop (i + 1 - w) (take (i + 1) xs))"
    by (simp add: drop_map take_map)
  have len: "length (drop (i + 1 - w) (take (i + 1) xs)) = i + 1 - (i + 1 - w)"
    using assms by simp
  have step: "rolling_mean w (map Num xs) ! i =
      (let obs = observations (drop (i + 1 - w) (take (i + 1) (map Num xs)))
       in if w \<le> length obs \<and> 0 < length obs
          then Num (sum_list obs / real (length obs)) else NaN)"
    using assms by (simp add: rolling_mean_def)
  show ?thesis
  proof (cases "0 < w \<and> w \<le> i + 1")
    case True
    then have "i + 1 - (i + 1 - w) = w"
      by arith
    with True show ?thesis
      unfolding step win observations_Num Let_def len by simp
  next
    case False
    then have "w = 0 \<or> i + 1 - (i + 1 - w) < w"
      by arith
    with False show ?thesis
      unfolding step win observations_Num Let_def len by auto
  qed
qed

lemma gain_series: "series_where (diff data) (map (\<lambda>d. fgt d (Num 0)) (diff data)) (Num 0)
    = map Num (gains data)"
  by (rule nth_equalityI) (simp_all add: series_where_def diff_def gains_def)

lemma loss_series:
  "map fneg (series_where (diff data) (map (\<lambda>d. flt d (Num 0)) (diff data)) (Num 0))
    = map Num (losses data)"
  by (rule nth_equalityI) (simp_all add: series_where_def diff_def losses_def flt_def)

lemma gains_nonneg: "x \<in> set (gains data) \<Longrightarrow> 0 \<le> x"
  by (auto simp: gains_def)

lemma losses_nonneg: "x \<in> set (losses data) \<Longrightarrow> 0 \<le> x"
  by (auto simp: losses_def)

lemma length_gains: "length (gains data) = length data"
  by (simp add: gains_def)

lemma length_losses: "length (losses data) = length data"
  by (simp add: losses_def)

lemma rsi_gain_nth:
  assumes "i < length data"
  shows "rsi_gain data p ! i =
    (if 0 < p \<and> p \<le> i + 1
     then Num (sum_list (drop (i + 1 - p) (take (i + 1) (gains data))) / real p) else NaN)"
  unfolding rsi_gain_def Let_def gain_series
  using assms by (intro rolling_mean_Num) (simp add: length_gains)

lemma rsi_loss_nth:
  assumes "i < length data"
  shows "rsi_loss data p ! i =
    (if 0 < p \<and> p \<le> i + 1
     then Num (sum_list (drop (i + 1 - p) (take (i + 1) (losses data))) / real p) else NaN)"
  unfolding rsi_loss_def Let_def loss_series
  using assms by (intro rolling_mean_Num) (simp add: length_losses)

lemma length_rolling_mean: "length (rolling_mean w xs) = length xs"
  by (simp add: rolling_mean_def)

lemma length_rsi_gain: "length (rsi_gain data p) = length data"
  by (simp add: rsi_gain_def Let_def series_where_def diff_def length_rolling_mean)

lemma length_rsi_loss: "length (rsi_loss data p) = length data"
  by (simp add: rsi_loss_def Let_def series_where_def diff_def length_rolling_mean)

lemma window_sum_nonneg:
  assumes "\<And>x. x \<in> set xs \<Longrightarrow> (0 :: real) \<le> x"
  shows "0 \<le> sum_list (drop a (take b xs))"
  by (rule sum_list_nonneg) (auto dest!: in_set_dropD in_set_takeD intro: assms)


lemma rsi_value:
  assumes "0 \<le> g" and "0 \<le> l"
  shows "fsub (Num 100) (fdiv (Num 100) (fadd (Num 1) (fdiv (Num g) (Num l)))) =
    (if l = 0 then (if g = 0 then NaN else Num 100) else Num (100 - 100 / (1 + g / l)))"
proof (cases "l = 0")
  case True
  with assms show ?thesis
    by (simp add: fsub_def)
next
  case False
  with assms have "0 < 1 + g / l"
    by (simp add: add_pos_nonneg)
  with False show ?thesis
    by (simp add: fsub_def)
qed

lemma rsi_value_range:
  assumes "0 \<le> g" and "0 < l"
  shows "0 \<le> 100 - 100 / (1 + g / l) \<and> 100 - 100 / (1 + g / l) \<le> (100 :: real)"
proof -
  have ratio: "0 \<le> g / l"
    using assms by simp
  then have "100 / (1 + g / l) \<le> 100 / 1"
    by (intro divide_left_mono) simp_all
  moreover have "0 \<le> 100 / (1 + g / l)"
    using ratio by (intro divide_nonneg_nonneg) simp_all
  ultimately show ?thesis
    by simp
qed

lemma averages:
  assumes "i < length data" and "0 < p" and "p \<le> i + 1"
  shows "\<exists>g l. rsi_gain data p ! i = Num g \<and> rsi_loss data p ! i = Num l \<and> 0 \<le> g \<and> 0 \<le> l"
proof -
  have "0 \<le> sum_list (drop (i + 1 - p) (take (i + 1) (gains data)))"
    by (rule window_sum_nonneg) (rule gains_nonneg)
  then have "0 \<le> sum_list (drop (i + 1 - p) (take (i + 1) (gains data))) / real p"
    by simp
  moreover
  have "0 \<le> sum_list (drop (i + 1 - p) (take (i + 1) (losses data)))"
    by (rule window_sum_nonneg) (rule losses_nonneg)
  then have "0 \<le> sum_list (drop (i + 1 - p) (take (i + 1) (losses data))) / real p"
    by simp
  ultimately show ?thesis
    using assms by (simp add: rsi_gain_nth rsi_loss_nth)
qed

lemma gains_constant: "gains (replicate n c) = replicate n 0"
  by (rule nth_equalityI) (simp_all add: gains_def)

lemma losses_constant: "losses (replicate n c) = replicate n 0"
  by (rule nth_equalityI) (simp_all add: losses_def)

lemma window_zero: "sum_list (drop a (take b (replicate n (0 :: real)))) = 0"
  by (simp only: take_replicate drop_replicate sum_list_replicate)

lemma rsi_gain_constant:
  assumes "i < n"
  shows "rsi_gain (replicate n c) p ! i = (if 0 < p \<and> p \<le> i + 1 then Num 0 else NaN)"
proof -
  have "i < length (replicate n c)"
    using assms by simp
  from rsi_gain_nth [OF this, of p] show ?thesis
    unfolding gains_constant window_zero by simp
qed

lemma rsi_loss_constant:
  assumes "i < n"
  shows "rsi_loss (replicate n c) p ! i = (if 0 < p \<and> p \<le> i + 1 then Num 0 else NaN)"
proof -
  have "i < length (replicate n c)"
    using assms by simp
  from rsi_loss_nth [OF this, of p] show ?thesis
    unfolding losses_constant window_zero by simp
qed

lemma constant_series_undefined:
  assumes "0 \<le> period"
  shows "calculate_rsi_manual (replicate n c) period = Inr (replicate n NaN)"
proof -
  have "map (\<lambda>r. fsub (Num 100) (fdiv (Num 100) (fadd (Num 1) r)))
          (map2 fdiv (rsi_gain (replicate n c) (nat period)) (rsi_loss (replicate n c) (nat period)))
        = replicate n NaN"
    by (rule nth_equalityI)
      (simp_all add: rsi_gain_constant rsi_loss_constant fsub_def length_rsi_gain length_rsi_loss)
  then show ?thesis
    using assms by (simp add: calculate_rsi_manual_def Let_def)
qed

text \<open>
  C4, as the claim states it, fails: an entry past the first \<open>period - 1\<close> is the
  "no value" marker as well when neither a gain nor a loss falls in its window. Here
  the prices stay at 2 over the window of the entry at index 3.
\<close>

theorem rsi_shape_counterexample:
  "(1 :: int) \<le> 2 \<and>
   calculate_rsi_manual [1, 2, 2, 2, 3] 2 = Inr [NaN, Num 100, Num 100, NaN, Num 100]"
  by code_simp

text \<open>
  C4, amended. For every price series and every period of at least 1,
  \<^verbatim>\<open>calculate_rsi_manual\<close> returns a sequence aligned one-to-one with the input. Its
  first \<open>period - 1\<close> entries are the "no value" marker. At every later index the
  average gain and the average loss of the window are defined and not negative, and the
  entry is a defined RSI value between 0 and 100, unless both averages are zero: then
  the entry is the "no value" marker too.
\<close>

theorem calculate_rsi_manual_shape:
  assumes "1 \<le> period"
  shows "\<exists>out. calculate_rsi_manual data period = Inr out \<and> length out = length data \<and>
    (\<forall>i<length data.
       if i + 1 < nat period then out ! i = NaN
       else \<exists>g l. rsi_gain data (nat period) ! i = Num g \<and>
                  rsi_loss data (nat period) ! i = Num l \<and> 0 \<le> g \<and> 0 \<le> l \<and>
                  (if g = 0 \<and> l = 0 then out ! i = NaN
                   else \<exists>v. out ! i = Num v \<and> 0 \<le> v \<and> v \<le> 100))"
proof -
  define out where "out = map (\<lambda>r. fsub (Num 100) (fdiv (Num 100) (fadd (Num 1) r)))
      (map2 fdiv (rsi_gain data (nat period)) (rsi_loss data (nat period)))"
  have run: "calculate_rsi_manual data period = Inr out"
    using assms by (simp add: calculate_rsi_manual_def Let_def out_def)
  have len: "length out = length data"
    by (simp add: out_def length_rsi_gain length_rsi_loss)
  have nth: "out ! i = fsub (Num 100) (fdiv (Num 100) (fadd (Num 1)
                 (fdiv (rsi_gain data (nat period) ! i) (rsi_loss data (nat period) ! i))))"
    if "i < length data" for i
    using that by (simp add: out_def length_rsi_gain length_rsi_loss)
  have entry: "if i + 1 < nat period then out ! i = NaN
       else \<exists>g l. rsi_gain data (nat period) ! i = Num g \<and>
                  rsi_loss data (nat period) ! i = Num l \<and> 0 \<le> g \<and> 0 \<le> l \<and>
                  (if g = 0 \<and> l = 0 then out ! i = NaN
                   else \<exists>v. out ! i = Num v \<and> 0 \<le> v \<and> v \<le> 100)"
    if i: "i < length data" for i
  proof (cases "i + 1 < nat period")
    case True
    then have "rsi_gain data (nat period) ! i = NaN"
      using i by (simp add: rsi_gain_nth)
    with True show ?thesis
      by (simp add: nth [OF i] fsub_def)
  next
    case False
    with assms have p: "0 < nat period" "nat period \<le> i + 1"
      by simp_all
    from averages [OF i p] obtain g l
      where gl: "rsi_gain data (nat period) ! i = Num g" "rsi_loss data (nat period) ! i = Num l"
        "0 \<le> g" "0 \<le> l"
      by blast
    have val: "out ! i =
        (if l = 0 then (if g = 0 then NaN else Num 100) else Num (100 - 100 / (1 + g / l)))"
      unfolding nth [OF i] gl(1,2) using gl(3,4) by (rule rsi_value)
    have "if g = 0 \<and> l = 0 then out ! i = NaN else \<exists>v. out ! i = Num v \<and> 0 \<le> v \<and> v \<le> 100"
    proof (cases "l = 0")
      case True
      then show ?thesis
        by (simp add: val)
    next
      case pos: False
      then have "0 < l"
        using gl(4) by simp
      from rsi_value_range [OF gl(3) this] pos show ?thesis
        by (simp add: val)
    qed
    with False gl show ?thesis
      by auto
  qed
  show ?thesis
    using run len entry by blast
qed

theorem calculate_rsi_manual_shape_witness:
  "(1 :: int) \<le> 2 \<and>
   calculate_rsi_manual [1, 2, 1, 3, 0] 2 = Inr [NaN, Num 100, Num 50, Num (200 / 3), Num 40] \<and>
   (\<exists>out. calculate_rsi_manual [1, 2, 1, 3, 0] 2 = Inr out \<and>
      length out = length [1, 2, 1, 3, 0 :: real] \<and>
      (\<forall>i<length [1, 2, 1, 3, 0 :: real].
         if i + 1 < nat 2 then out ! i = NaN
         else \<exists>g l. rsi_gain [1, 2, 1, 3, 0] (nat 2) ! i = Num g \<and>
                    rsi_loss [1, 2, 1, 3, 0] (nat 2) ! i = Num l \<and> 0 \<le> g \<and> 0 \<le> l \<and>
                    (if g = 0 \<and> l = 0 then out ! i = NaN
                     else \<exists>v. out ! i = Num v \<and> 0 \<le> v \<and> v \<le> 100)))"
proof -
  have period: "(1 :: int) \<le> 2"
    by simp
  have "calculate_rsi_manual [1, 2, 1, 3, 0] 2
          = Inr [NaN, Num 100, Num 50, Num (200 / 3), Num 40]"
    by code_simp
  with period calculate_rsi_manual_shape [OF period, of "[1, 2, 1, 3, 0]"] show ?thesis
    by blast
qed

text \<open>
  C5, as the claim states it, fails for the constant price series it names: the
  average gain and the average loss are both zero, zero divided by zero is not-a-number,
  and every entry past the warm-up window is the "no value" marker, not 100.
\<close>

theorem rsi_constant_series_counterexample:
  "calculate_rsi_manual [5, 5, 5, 5] 3 = Inr [NaN, NaN, NaN, NaN]"
  by code_simp

text \<open>
  C5, amended. With a period of at least 1, at every index whose window has an average
  loss of exactly zero the average gain is defined and not negative, and the entry is
  the defined boundary value 100 when the average gain is positive. When the average
  gain is zero as well, the entry is the "no value" marker; in particular a constant
  price series yields that marker at every index. No error is raised in either case.
\<close>

theorem calculate_rsi_manual_zero_loss:
  assumes "1 \<le> period" and "i < length data"
    and "calculate_rsi_manual data period = Inr out"
    and "rsi_loss data (nat period) ! i = Num 0"
  shows "(\<exists>g. rsi_gain data (nat period) ! i = Num g \<and> 0 \<le> g \<and>
              (if g = 0 then out ! i = NaN else out ! i = Num 100)) \<and>
         calculate_rsi_manual (replicate n c) period = Inr (replicate n NaN)"
proof -
  have window: "0 < nat period" "nat period \<le> i + 1"
    using assms(2,4) by (simp_all add: rsi_loss_nth split: if_splits)
  from averages [OF assms(2) window] assms(4) obtain g
    where g: "rsi_gain data (nat period) ! i = Num g" "0 \<le> g"
    by auto
  have "out = map (\<lambda>r. fsub (Num 100) (fdiv (Num 100) (fadd (Num 1) r)))
      (map2 fdiv (rsi_gain data (nat period)) (rsi_loss data (nat period)))"
    using assms(1,3) by (simp add: calculate_rsi_manual_def Let_def)
  then have "out ! i = fsub (Num 100) (fdiv (Num 100) (fadd (Num 1) (fdiv (Num g) (Num 0))))"
    using assms(2,4) g(1) by (simp add: length_rsi_gain length_rsi_loss)
  also have "\<dots> = (if g = 0 then NaN else Num 100)"
    using g(2) by (simp add: fsub_def)
  finally have "if g = 0 then out ! i = NaN else out ! i = Num 100"
    by simp
  moreover have "calculate_rsi_manual (replicate n c) period = Inr (replicate n NaN)"
    using assms(1) by (intro constant_series_undefined) simp
  ultimately show ?thesis
    using g by blast
qed

theorem calculate_rsi_manual_zero_loss_witness:
  "(1 :: int) \<le> 2 \<and> 1 < length [1, 2, 3 :: real] \<and>
   calculate_rsi_manual [1, 2, 3] 2 = Inr [NaN, Num 100, Num 100] \<and>
   rsi_loss [1, 2, 3] (nat 2) ! 1 = Num 0 \<and>
   rsi_gain [1, 2, 3] (nat 2) ! 1 = Num (1 / 2) \<and>
   [NaN, Num 100, Num 100] ! 1 = Num 100 \<and>
   calculate_rsi_manual (replicate 4 5) 2 = Inr (replicate 4 NaN)"
proof -
  have h1: "(1 :: int) \<le> 2" and h2: "1 < length [1, 2, 3 :: real]"
    by simp_all
  have h3: "calculate_rsi_manual [1, 2, 3] 2 = Inr [NaN, Num 100, Num 100]"
    by code_simp
  have h4: "rsi_loss [1, 2, 3] (nat 2) ! 1 = Num 0"
    by code_simp
  have h5: "rsi_gain [1, 2, 3] (nat 2) ! 1 = Num (1 / 2)"
    by code_simp
  from calculate_rsi_manual_zero_loss [OF h1 h2 h3 h4, of 4 5] h1 h2 h3 h4 h5
  show ?thesis
    by simp
qed

end
